theory Spec2Isabelle
  imports Complex_Main "HOL-Library.Log_Nat" "HOL-Library.Monad_Syntax"
begin

section \<open>ECI to ECEF conversion (eci\_to\_ecef.py)\<close>

text \<open>
  The script converts a position vector in the Earth-centred inertial frame into the
  Earth-fixed frame: civil date and time to a fractional Julian Date, Julian Date to
  Greenwich Mean Sidereal Time, and a rotation about the z axis by that angle.

  Number model. Python's \<open>int\<close> is \<^typ>\<open>int\<close>. A finite Python \<open>float\<close> is a
  \<^typ>\<open>real\<close>.

  The calendar stage (lines 31--45) uses only operations whose result IEEE 754 and
  the language fix bit for bit: the conversion of an \<open>int\<close>, true division of
  \<open>int\<close>s, \<open>*\<close>, \<open>+\<close>, \<open>-\<close>, \<open>/\<close> and \<open>math.floor\<close>. It is modelled with every operation
  rounded to the nearest double, ties to even, with the OverflowError of the
  conversions and the silent overflow of the arithmetic to an infinity.

  The sidereal stage (lines 48--73) goes through \<open>**\<close>, \<open>math.cos\<close> and \<open>math.sin\<close>,
  which the platform's C library computes and no standard fixes to the last bit. It is
  modelled over exact real arithmetic, with the OverflowError that \<open>**\<close> raises when
  the power exceeds the largest double.
\<close>

subsection \<open>Exceptions\<close>

datatype py_exception = ValueError | OverflowError

text \<open>A raised exception ends the computation: \<open>Inl\<close> carries it outwards.\<close>

definition bind_exn :: "py_exception + 'a \<Rightarrow> ('a \<Rightarrow> py_exception + 'b) \<Rightarrow> py_exception + 'b" where
  "bind_exn m f = (case m of Inl e \<Rightarrow> Inl e | Inr v \<Rightarrow> f v)"

subsection \<open>Binary64 floats\<close>

text \<open>The largest finite double.\<close>

definition max_f64 :: real where
  "max_f64 = 2 ^ 1024 - 2 ^ 971"

text \<open>The exponent \<open>b\<close> with \<open>2 ^ b \<le> |x| < 2 ^ (b + 1)\<close>, for \<open>x\<close> other than 0.\<close>

definition binade :: "real \<Rightarrow> int" where
  "binade x =
     (if 1 \<le> \<bar>x\<bar> then bitlen \<lfloor>\<bar>x\<bar>\<rfloor> - 1
      else (let k = bitlen \<lfloor>1 / \<bar>x\<bar>\<rfloor>
            in if \<bar>x\<bar> = 2 powi (1 - k) then 1 - k else - k))"

definition round_half_even :: "real \<Rightarrow> int" where
  "round_half_even m =
     (let f = \<lfloor>m\<rfloor>; d = m - of_int f
      in if d < 1 / 2 then f else if 1 / 2 < d then f + 1 else if even f then f else f + 1)"

text \<open>
  Rounding to 53 significant bits, to nearest, ties to even; below \<open>2 ^ (- 1022)\<close>
  the spacing stays \<open>2 ^ (- 1074)\<close> (subnormal numbers). The exponent is not bounded
  above here: a result beyond \<open>max_f64\<close> is an overflow, which each operation handles.
\<close>

definition f64_round :: "real \<Rightarrow> real" where
  "f64_round x =
     (if x = 0 then 0
      else (let q = max (binade x - 52) (- 1074)
            in of_int (round_half_even (x / 2 powi q)) * 2 powi q))"

text \<open>A float value: finite, an infinity, or not a number.\<close>

datatype f64 = Fin real | PInf | NInf | NaN

text \<open>The result of \<open>*\<close>, \<open>+\<close>, \<open>-\<close>, \<open>/\<close> on finite operands, from the exact result.\<close>

definition f64_of :: "real \<Rightarrow> f64" where
  "f64_of x =
     (let r = f64_round x
      in if max_f64 < r then PInf else if r < - max_f64 then NInf else Fin r)"

fun f64_add :: "f64 \<Rightarrow> f64 \<Rightarrow> f64" where
  "f64_add (Fin a) (Fin b) = f64_of (a + b)"
| "f64_add NaN y = NaN"
| "f64_add x NaN = NaN"
| "f64_add PInf NInf = NaN"
| "f64_add NInf PInf = NaN"
| "f64_add PInf y = PInf"
| "f64_add x PInf = PInf"
| "f64_add NInf y = NInf"
| "f64_add x NInf = NInf"

text \<open>Division by a finite divisor other than 0 (the script divides by literals only).\<close>

fun f64_div_by :: "f64 \<Rightarrow> real \<Rightarrow> f64" where
  "f64_div_by (Fin a) c = f64_of (a / c)"
| "f64_div_by PInf c = (if 0 < c then PInf else NInf)"
| "f64_div_by NInf c = (if 0 < c then NInf else PInf)"
| "f64_div_by NaN c = NaN"

text \<open>
  \<open>float(n)\<close> as the arithmetic applies it to an \<open>int\<close> operand: the nearest double,
  or OverflowError (``int too large to convert to float'').
\<close>

definition int_to_f64 :: "int \<Rightarrow> py_exception + real" where
  "int_to_f64 n =
     (let r = f64_round (of_int n)
      in if max_f64 < \<bar>r\<bar> then Inl OverflowError else Inr r)"

text \<open>
  \<open>a / b\<close> on two \<open>int\<close>s, \<open>b\<close> other than 0: the double nearest to the exact
  quotient, or OverflowError (``integer division result too large for a float'').
\<close>

definition int_true_div :: "int \<Rightarrow> int \<Rightarrow> py_exception + real" where
  "int_true_div a b =
     (let r = f64_round (of_int a / of_int b)
      in if max_f64 < \<bar>r\<bar> then Inl OverflowError else Inr r)"

text \<open>\<open>math.floor\<close>: an \<open>int\<close>; an infinity raises OverflowError, a NaN ValueError.\<close>

fun math_floor :: "f64 \<Rightarrow> py_exception + int" where
  "math_floor (Fin x) = Inr \<lfloor>x\<rfloor>"
| "math_floor PInf = Inl OverflowError"
| "math_floor NInf = Inl OverflowError"
| "math_floor NaN = Inl ValueError"

subsection \<open>Calendar date to Julian Date (lines 31--45)\<close>

text \<open>
  The literals \<open>365.25\<close> and \<open>1524.5\<close> are doubles as written; \<open>30.6001\<close> stands for
  the double nearest to it. \<open>second\<close> is a finite float.
\<close>

definition ymdhms_to_jd ::
  "int \<Rightarrow> int \<Rightarrow> int \<Rightarrow> int \<Rightarrow> int \<Rightarrow> real \<Rightarrow> py_exception + f64" where
  "ymdhms_to_jd year month day hour minute second =
     (let (year, month) = (if month \<le> 2 then (year - 1, month + 12) else (year, month))
      in bind_exn (int_true_div year 100) (\<lambda>year_100.
         let A = \<lfloor>year_100\<rfloor>
         in bind_exn (int_true_div A 4) (\<lambda>A_4.
         let B = 2 - A + \<lfloor>A_4\<rfloor>
         in bind_exn (int_to_f64 (year + 4716)) (\<lambda>y.
         bind_exn (math_floor (f64_of (365.25 * y))) (\<lambda>C.
         bind_exn (int_to_f64 (month + 1)) (\<lambda>m.
         bind_exn (math_floor (f64_of (f64_round 30.6001 * m))) (\<lambda>D.
         bind_exn (int_to_f64 (C + D + day + B)) (\<lambda>n.
         let jd = f64_of (n - 1524.5)
         in bind_exn (int_true_div minute 60) (\<lambda>minute_60.
         bind_exn (int_to_f64 hour) (\<lambda>h.
         let day_fraction =
               f64_div_by (f64_add (f64_add (Fin h) (Fin minute_60)) (f64_of (second / 3600))) 24;
             jd_frac = f64_add jd day_fraction
         in Inr jd_frac))))))))))"

text \<open>The integer sum \<open>C + D + day + B\<close> of line 41, from lines 32--39.\<close>

definition day_number :: "int \<Rightarrow> int \<Rightarrow> int \<Rightarrow> py_exception + int" where
  "day_number year month day =
     (let (year, month) = (if month \<le> 2 then (year - 1, month + 12) else (year, month))
      in bind_exn (int_true_div year 100) (\<lambda>year_100.
         let A = \<lfloor>year_100\<rfloor>
         in bind_exn (int_true_div A 4) (\<lambda>A_4.
         let B = 2 - A + \<lfloor>A_4\<rfloor>
         in bind_exn (int_to_f64 (year + 4716)) (\<lambda>y.
         bind_exn (math_floor (f64_of (365.25 * y))) (\<lambda>C.
         bind_exn (int_to_f64 (month + 1)) (\<lambda>m.
         bind_exn (math_floor (f64_of (f64_round 30.6001 * m))) (\<lambda>D.
         Inr (C + D + day + B))))))))"

text \<open>The day fraction of line 42.\<close>

definition day_fraction_line42 :: "int \<Rightarrow> int \<Rightarrow> real \<Rightarrow> py_exception + f64" where
  "day_fraction_line42 hour minute second =
     bind_exn (int_true_div minute 60) (\<lambda>minute_60.
     bind_exn (int_to_f64 hour) (\<lambda>h.
     Inr (f64_div_by (f64_add (f64_add (Fin h) (Fin minute_60)) (f64_of (second / 3600))) 24)))"

subsection \<open>Python's float remainder and power\<close>

text \<open>
  \<open>x % y\<close> on floats is the floored remainder: its sign is the divisor's. The only
  use in the script has the literal divisor \<open>360.0\<close>, so the ZeroDivisionError of a
  zero divisor cannot arise there.
\<close>

definition py_float_mod :: "real \<Rightarrow> real \<Rightarrow> real" where
  "py_float_mod x y = x - y * of_int \<lfloor>x / y\<rfloor>"

text \<open>
  \<open>x ** n\<close> on a float and a literal exponent 2 or 3: OverflowError when the power is
  beyond the largest double.
\<close>

definition py_float_pow :: "real \<Rightarrow> nat \<Rightarrow> py_exception + real" where
  "py_float_pow x n = (if max_f64 < \<bar>x ^ n\<bar> then Inl OverflowError else Inr (x ^ n))"

subsection \<open>Julian Date to GMST in degrees (lines 48--54)\<close>

definition jd_to_gmst :: "real \<Rightarrow> py_exception + real" where
  "jd_to_gmst jd =
     (let T = (jd - 2451545.0) / 36525.0
      in bind_exn (py_float_pow T 2) (\<lambda>T_2.
         bind_exn (py_float_pow T 3) (\<lambda>T_3.
         let GMST_sec = 67310.54841 + (876600.0 * 3600.0 + 8640184.812866) * T
                          + 0.093104 * T_2 - 0.0000062 * T_3;
             GMST_deg = py_float_mod (GMST_sec / 240.0) 360.0;
             GMST_deg = (if GMST_deg < 0 then GMST_deg + 360.0 else GMST_deg)
         in Inr GMST_deg)))"

text \<open>The value of \<open>GMST_deg\<close> after line 51, before the test of line 52.\<close>

definition gmst_deg_line51 :: "real \<Rightarrow> py_exception + real" where
  "gmst_deg_line51 jd =
     (let T = (jd - 2451545.0) / 36525.0
      in bind_exn (py_float_pow T 2) (\<lambda>T_2.
         bind_exn (py_float_pow T 3) (\<lambda>T_3.
         let GMST_sec = 67310.54841 + (876600.0 * 3600.0 + 8640184.812866) * T
                          + 0.093104 * T_2 - 0.0000062 * T_3
         in Inr (py_float_mod (GMST_sec / 240.0) 360.0))))"

subsection \<open>Degrees to radians (lines 57--58)\<close>

definition degrees_to_radians :: "real \<Rightarrow> real" where
  "degrees_to_radians degrees = degrees * pi / 180.0"

subsection \<open>The rotation (lines 61--73)\<close>

definition eci_to_ecef ::
  "real \<Rightarrow> real \<Rightarrow> real \<Rightarrow> real \<Rightarrow> py_exception + real \<times> real \<times> real" where
  "eci_to_ecef jd eci_x eci_y eci_z =
     bind_exn (jd_to_gmst jd) (\<lambda>gmst.
     let gmst_rad = degrees_to_radians gmst;
         cos_gmst = cos gmst_rad;
         sin_gmst = sin gmst_rad;
         ecef_x = cos_gmst * eci_x + sin_gmst * eci_y;
         ecef_y = - sin_gmst * eci_x + cos_gmst * eci_y;
         ecef_z = eci_z
     in Inr (ecef_x, ecef_y, ecef_z))"

text \<open>
  The rotation step alone: lines 63--73 of \<open>eci_to_ecef\<close>, as a function of the GMST
  angle in degrees that line 62 computes.
\<close>

definition eci_to_ecef_rotation :: "real \<Rightarrow> real \<Rightarrow> real \<Rightarrow> real \<Rightarrow> real \<times> real \<times> real" where
  "eci_to_ecef_rotation gmst eci_x eci_y eci_z =
     (let gmst_rad = degrees_to_radians gmst;
          cos_gmst = cos gmst_rad;
          sin_gmst = sin gmst_rad;
          ecef_x = cos_gmst * eci_x + sin_gmst * eci_y;
          ecef_y = - sin_gmst * eci_x + cos_gmst * eci_y;
          ecef_z = eci_z
      in (ecef_x, ecef_y, ecef_z))"

subsection \<open>The script body (lines 75--110)\<close>

text \<open>
  A run of the script is what it printed on standard output and how it ended. The
  builtins \<open>int\<close> and \<open>float\<close> are parameters of the model: each maps an argument
  string to its value, or to \<open>None\<close> where Python raises ValueError; \<open>float\<close> gives a
  finite value. The conversions run in the order of lines 88--96, and the first failure
  ends the run with nothing printed. \<open>exit()\<close> raises SystemExit with no code.

  An exception of \<open>ymdhms_to_jd\<close> or \<open>eci_to_ecef\<close> is not caught. An infinite
  Julian Date raises nothing: it makes \<open>T\<close>, \<open>GMST_sec\<close>, the angle and both rotated
  components NaN, and line 71 copies z.
\<close>

datatype out_line = Text string | Float f64

datatype ending = Finished | SystemExit "int option" | Uncaught py_exception

text \<open>The process exit status the interpreter gives for each ending.\<close>

fun exit_status :: "ending \<Rightarrow> int" where
  "exit_status Finished = 0"
| "exit_status (SystemExit None) = 0"
| "exit_status (SystemExit (Some n)) = n"
| "exit_status (Uncaught e) = 1"

record run =
  stdout :: "out_line list"
  ending :: ending

definition usage :: string where
  "usage = ''Usage: python3 eci_to_ecef.py year month day hour minute second eci_x_km eci_y_km eci_z_km''"

definition parse_args ::
  "(string \<Rightarrow> int option) \<Rightarrow> (string \<Rightarrow> real option) \<Rightarrow> string list
     \<Rightarrow> (int \<times> int \<times> int \<times> int \<times> int \<times> real \<times> real \<times> real \<times> real) option" where
  "parse_args py_int py_float argv =
     do {
       year \<leftarrow> py_int (argv ! 1);
       month \<leftarrow> py_int (argv ! 2);
       day \<leftarrow> py_int (argv ! 3);
       hour \<leftarrow> py_int (argv ! 4);
       minute \<leftarrow> py_int (argv ! 5);
       second \<leftarrow> py_float (argv ! 6);
       eci_x_km \<leftarrow> py_float (argv ! 7);
       eci_y_km \<leftarrow> py_float (argv ! 8);
       eci_z_km \<leftarrow> py_float (argv ! 9);
       Some (year, month, day, hour, minute, second, eci_x_km, eci_y_km, eci_z_km)
     }"

definition main :: "(string \<Rightarrow> int option) \<Rightarrow> (string \<Rightarrow> real option) \<Rightarrow> string list \<Rightarrow> run" where
  "main py_int py_float argv =
     (if length argv = 10 then
        (case parse_args py_int py_float argv of
           None \<Rightarrow> \<lparr>stdout = [], ending = Uncaught ValueError\<rparr>
         | Some (year, month, day, hour, minute, second, eci_x_km, eci_y_km, eci_z_km) \<Rightarrow>
             (case ymdhms_to_jd year month day hour minute second of
                Inl e \<Rightarrow> \<lparr>stdout = [], ending = Uncaught e\<rparr>
              | Inr (Fin jd) \<Rightarrow>
                  (case eci_to_ecef jd eci_x_km eci_y_km eci_z_km of
                     Inl e \<Rightarrow> \<lparr>stdout = [], ending = Uncaught e\<rparr>
                   | Inr (ecef_x_km, ecef_y_km, ecef_z_km) \<Rightarrow>
                       \<lparr>stdout = [Float (Fin ecef_x_km), Float (Fin ecef_y_km),
                                  Float (Fin ecef_z_km)],
                        ending = Finished\<rparr>)
              | Inr _ \<Rightarrow>
                  \<lparr>stdout = [Float NaN, Float NaN, Float (Fin eci_z_km)],
                   ending = Finished\<rparr>))
      else \<lparr>stdout = [Text usage], ending = SystemExit None\<rparr>)"

section \<open>Properties\<close>

subsection \<open>Rounding to a double\<close>

lemma binade_bounds:
  assumes "x \<noteq> 0"
  shows "2 powi binade x \<le> \<bar>x\<bar>" and "\<bar>x\<bar> < 2 powi (binade x + 1)"
proof -
  have both: "2 powi binade x \<le> \<bar>x\<bar> \<and> \<bar>x\<bar> < 2 powi (binade x + 1)"
  proof (cases "1 \<le> \<bar>x\<bar>")
    case True
    define n where "n = \<lfloor>\<bar>x\<bar>\<rfloor>"
    have n: "0 < n" using True by (simp add: n_def)
    have b: "binade x = bitlen n - 1" using True by (simp add: binade_def n_def)
    from n have b1: "1 \<le> bitlen n" by (auto simp: bitlen_alt_def)
    from bitlen_bounds [OF n]
    have lo: "2 ^ nat (bitlen n - 1) \<le> n" and hi: "n < 2 ^ nat (bitlen n)" by auto
    have "real_of_int (2 ^ nat (bitlen n - 1)) \<le> real_of_int n"
      using lo by (simp only: of_int_le_iff)
    also have "\<dots> \<le> \<bar>x\<bar>" by (simp add: n_def)
    finally have 1: "2 powi (bitlen n - 1) \<le> \<bar>x\<bar>"
      using b1 by (simp add: power_int_nonneg_exp)
    from hi have "n + 1 \<le> 2 ^ nat (bitlen n)" by simp
    then have "real_of_int (n + 1) \<le> real_of_int (2 ^ nat (bitlen n))"
      by (simp only: of_int_le_iff)
    moreover have "\<bar>x\<bar> < real_of_int (n + 1)"
      unfolding n_def by linarith
    ultimately have "\<bar>x\<bar> < 2 ^ nat (bitlen n)" by simp
    then have 2: "\<bar>x\<bar> < 2 powi (bitlen n - 1 + 1)"
      using b1 by (simp add: power_int_nonneg_exp)
    from 1 2 b show ?thesis by simp
  next
    case False
    define y where "y = 1 / \<bar>x\<bar>"
    define n where "n = \<lfloor>y\<rfloor>"
    define k where "k = bitlen n"
    from False assms have x: "0 < \<bar>x\<bar>" "\<bar>x\<bar> < 1" by auto
    then have y: "1 < y" by (simp add: y_def)
    then have n: "0 < n" by (simp add: n_def)
    from n have k1: "1 \<le> k" by (auto simp: bitlen_alt_def k_def)
    from bitlen_bounds [OF n]
    have lo: "2 ^ nat (k - 1) \<le> n" and hi: "n < 2 ^ nat k" by (auto simp: k_def)
    have "real_of_int (2 ^ nat (k - 1)) \<le> real_of_int n"
      using lo by (simp only: of_int_le_iff)
    also have "\<dots> \<le> y" by (simp add: n_def)
    finally have "2 ^ nat (k - 1) \<le> 1 / \<bar>x\<bar>" by (simp add: y_def)
    with x have "\<bar>x\<bar> * 2 ^ nat (k - 1) \<le> 1"
      by (simp add: field_simps)
    then have "\<bar>x\<bar> \<le> 1 / 2 ^ nat (k - 1)"
      by (simp add: field_simps)
    also have "\<dots> = 2 powi (1 - k)"
      using k1 power_int_minus_divide [of "2::real" "k - 1"]
      by (simp add: power_int_nonneg_exp)
    finally have up: "\<bar>x\<bar> \<le> 2 powi (1 - k)" .
    from hi have "n + 1 \<le> 2 ^ nat k" by simp
    then have "real_of_int (n + 1) \<le> real_of_int (2 ^ nat k)"
      by (simp only: of_int_le_iff)
    moreover have "y < real_of_int (n + 1)"
      unfolding n_def by linarith
    ultimately have "1 / \<bar>x\<bar> < 2 ^ nat k" by (simp add: y_def)
    with x have "1 < \<bar>x\<bar> * 2 ^ nat k"
      by (simp add: field_simps)
    then have "1 / 2 ^ nat k < \<bar>x\<bar>"
      by (simp add: field_simps)
    moreover have "1 / 2 ^ nat k = (2::real) powi (- k)"
      using k1 power_int_minus_divide [of "2::real" k]
      by (simp add: power_int_nonneg_exp)
    ultimately have low: "2 powi (- k) < \<bar>x\<bar>" by simp
    have b: "binade x = (if \<bar>x\<bar> = 2 powi (1 - k) then 1 - k else - k)"
      using False by (simp add: binade_def k_def n_def y_def Let_def)
    show ?thesis
    proof (cases "\<bar>x\<bar> = 2 powi (1 - k)")
      case True
      have "(2::real) powi (1 - k) < 2 powi (1 - k + 1)"
        by (rule power_int_strict_increasing) simp_all
      with True b show ?thesis by simp
    next
      case False
      with up have "\<bar>x\<bar> < 2 powi (1 - k)" by simp
      with low False b show ?thesis by (simp add: add.commute)
    qed
  qed
  from both show "2 powi binade x \<le> \<bar>x\<bar>" and "\<bar>x\<bar> < 2 powi (binade x + 1)" by simp_all
qed

lemma two_powi_less_D:
  assumes "(2::real) powi m < 2 powi n"
  shows "m < n"
proof (rule ccontr)
  assume "\<not> m < n"
  then have "n \<le> m" by simp
  then have "(2::real) powi n \<le> 2 powi m"
    by (rule power_int_increasing) simp
  with assms show False by simp
qed

lemma binade_eqI:
  assumes "2 powi b \<le> \<bar>x\<bar>" and "\<bar>x\<bar> < 2 powi (b + 1)"
  shows "binade x = b"
proof -
  have "(0::real) < 2 powi b" by simp
  with assms(1) have "0 < \<bar>x\<bar>" by linarith
  then have x: "x \<noteq> 0" by simp
  note bb = binade_bounds [OF x]
  have "(2::real) powi binade x < 2 powi (b + 1)"
    using bb(1) assms(2) by linarith
  then have 1: "binade x < b + 1"
    by (rule two_powi_less_D)
  have "(2::real) powi b < 2 powi (binade x + 1)"
    using bb(2) assms(1) by linarith
  then have 2: "b < binade x + 1"
    by (rule two_powi_less_D)
  from 1 2 show ?thesis by simp
qed


lemma round_half_even_of_int: "round_half_even (of_int m) = m"
  by (simp add: round_half_even_def)

lemma round_half_even_near:
  assumes "\<bar>y - of_int n\<bar> < 1 / 2"
  shows "round_half_even y = n"
proof (cases "of_int n \<le> y")
  case True
  with assms have "\<lfloor>y\<rfloor> = n" by (intro floor_unique) auto
  with assms True show ?thesis by (simp add: round_half_even_def Let_def)
next
  case False
  with assms have f: "\<lfloor>y\<rfloor> = n - 1" by (intro floor_unique) auto
  from assms False have "1 / 2 < y - of_int (n - 1)" by auto
  with f show ?thesis by (simp add: round_half_even_def Let_def)
qed

lemma f64_round_nearest:
  fixes p :: nat
  assumes p: "p \<le> 1074"
    and lo: "2 ^ 52 \<le> \<bar>x\<bar> * 2 ^ p"
    and hi: "\<bar>x\<bar> * 2 ^ p < 2 ^ 53"
    and n: "\<bar>x * 2 ^ p - of_int n\<bar> < 1 / 2"
  shows "f64_round x = of_int n / 2 ^ p"
proof -
  have pw: "(2::real) powi (- int p) = 1 / 2 ^ p"
    using power_int_minus_divide [of "2::real" "int p"] by simp
  have e1: "(2::real) powi (52 - int p) = 2 ^ 52 / 2 ^ p"
    by (simp add: power_int_diff)
  have e2: "(2::real) powi (52 - int p + 1) = 2 ^ 53 / 2 ^ p"
  proof -
    have "52 - int p + 1 = 53 - int p" by simp
    then show ?thesis by (simp add: power_int_diff)
  qed
  have "2 powi (52 - int p) \<le> \<bar>x\<bar>"
    using lo by (simp add: e1 field_simps)
  moreover have "\<bar>x\<bar> < 2 powi (52 - int p + 1)"
    using hi by (simp only: e2) (simp add: field_simps)
  ultimately have b: "binade x = 52 - int p" by (rule binade_eqI)
  from lo have x: "x \<noteq> 0" by auto
  have q: "max (binade x - 52) (- 1074) = - int p"
    using p by (simp add: b)
  have "x / 2 powi (- int p) = x * 2 ^ p" by (simp add: pw)
  with n have "round_half_even (x / 2 powi (- int p)) = n"
    by (simp add: round_half_even_near)
  with x show ?thesis
    by (simp add: f64_round_def Let_def q pw)
qed

lemma f64_round_exact:
  fixes p :: nat
  assumes p: "p \<le> 1074" and k: "\<bar>k\<bar> < 2 ^ 53"
  shows "f64_round (of_int k / 2 ^ p) = of_int k / 2 ^ p"
proof (cases "k = 0")
  case True
  then show ?thesis by (simp add: f64_round_def)
next
  case False
  define x :: real where "x = of_int k / 2 ^ p"
  define q where "q = max (binade x - 52) (- 1074)"
  from False have x: "x \<noteq> 0" by (simp add: x_def)
  have pw: "(2::real) powi (- int p) = 1 / 2 ^ p"
    using power_int_minus_divide [of "2::real" "int p"] by simp
  have xk: "x = of_int k * 2 powi (- int p)" by (simp add: x_def pw)
  from k have "real_of_int \<bar>k\<bar> < real_of_int (2 ^ 53)" by (simp only: of_int_less_iff)
  then have "\<bar>real_of_int k\<bar> < 2 ^ 53" by simp
  then have "\<bar>x\<bar> < 2 ^ 53 * 2 powi (- int p)"
    by (simp add: xk abs_mult)
  also have "\<dots> = 2 powi (53 - int p)"
    using power_int_add [of "2::real" 53 "- int p"] by simp
  finally have "\<bar>x\<bar> < 2 powi (53 - int p)" .
  with binade_bounds(1) [OF x] have "(2::real) powi binade x < 2 powi (53 - int p)"
    by linarith
  then have "binade x < 53 - int p" by (rule two_powi_less_D)
  with p have qp: "q \<le> - int p" by (simp add: q_def)
  define j where "j = nat (- int p - q)"
  from qp have j: "int j = - int p - q" by (simp add: j_def)
  have "(2::real) powi (- int p) = 2 powi (int j + q)" by (simp add: j)
  also have "\<dots> = 2 ^ j * 2 powi q"
    using power_int_add [of "2::real" "int j" q] by simp
  finally have split: "(2::real) powi (- int p) = 2 ^ j * 2 powi q" .
  have "x / 2 powi q = of_int k * 2 ^ j"
    by (simp add: xk split)
  also have "\<dots> = of_int (k * 2 ^ j)" by simp
  finally have "round_half_even (x / 2 powi q) = k * 2 ^ j"
    by (simp only: round_half_even_of_int)
  then have "f64_round x = of_int (k * 2 ^ j) * 2 powi q"
    using x by (simp add: f64_round_def Let_def q_def)
  also have "\<dots> = x" by (simp add: xk split)
  finally show ?thesis by (simp add: x_def)
qed

lemma f64_round_int:
  assumes "\<bar>k\<bar> < 2 ^ 53"
  shows "f64_round (of_int k) = of_int k"
  using f64_round_exact [of 0 k] assms by simp

lemma max_f64_ge: "2 ^ 64 \<le> max_f64"
proof -
  have "(2::real) ^ 971 \<le> 2 ^ 1023" by (rule power_increasing) simp_all
  moreover have "(2::real) ^ 1024 = 2 * 2 ^ 1023" by simp
  ultimately have "(2::real) ^ 1023 \<le> max_f64" by (simp add: max_f64_def)
  moreover have "(2::real) ^ 64 \<le> 2 ^ 1023" by (rule power_increasing) simp_all
  ultimately show ?thesis by simp
qed

lemma f64_of_Fin:
  assumes "\<bar>f64_round x\<bar> \<le> 2 ^ 64"
  shows "f64_of x = Fin (f64_round x)"
proof -
  from assms max_f64_ge have "\<not> max_f64 < f64_round x" and "\<not> f64_round x < - max_f64"
    by linarith+
  then show ?thesis by (simp add: f64_of_def Let_def)
qed

lemma int_to_f64_exact:
  assumes "\<bar>k\<bar> < 2 ^ 53"
  shows "int_to_f64 k = Inr (of_int k)"
proof -
  from assms have "real_of_int \<bar>k\<bar> < real_of_int (2 ^ 53)" by (simp only: of_int_less_iff)
  then have "\<bar>real_of_int k\<bar> \<le> 2 ^ 64" by simp
  with max_f64_ge show ?thesis
    by (simp add: int_to_f64_def Let_def f64_round_int [OF assms])
qed

lemma f64_round_numeral:
  assumes "(numeral k :: int) < 2 ^ 53"
  shows "f64_round (numeral k) = numeral k"
  using f64_round_int [of "numeral k"] assms by simp

lemma f64_round_0: "f64_round 0 = 0"
  by (simp add: f64_round_def)

lemma f64_round_1: "f64_round 1 = 1"
  using f64_round_int [of 1] by simp

lemma int_true_div_Inr:
  assumes "\<bar>f64_round (of_int a / of_int b)\<bar> \<le> 2 ^ 64"
  shows "int_true_div a b = Inr (f64_round (of_int a / of_int b))"
proof -
  from assms max_f64_ge have "\<not> max_f64 < \<bar>f64_round (of_int a / of_int b)\<bar>" by linarith
  then show ?thesis by (simp add: int_true_div_def Let_def)
qed

lemma int_to_f64_Inr:
  assumes "\<bar>f64_round (of_int n)\<bar> \<le> 2 ^ 64"
  shows "int_to_f64 n = Inr (f64_round (of_int n))"
proof -
  from assms max_f64_ge have "\<not> max_f64 < \<bar>f64_round (of_int n)\<bar>" by linarith
  then show ?thesis by (simp add: int_to_f64_def Let_def)
qed

text \<open>The rules that evaluate the float operations on operands of moderate size.\<close>

lemmas f64_eval = bind_exn_def Let_def int_true_div_Inr int_to_f64_Inr f64_of_Fin
  f64_round_numeral f64_round_0 f64_round_1

text \<open>The double of the literal \<open>30.6001\<close>, and one half.\<close>

lemma f64_round_shared_1: "f64_round (306001 / 10000) = 8613162434843745 / 281474976710656"
  using f64_round_nearest [of 48 "306001 / 10000" 8613162434843745] by simp

lemma f64_round_shared_2: "f64_round (1 / 2) = 1 / 2"
  using f64_round_exact [of 1 1] by simp

lemmas f64_round_literals = f64_round_shared_1 f64_round_shared_2

subsection \<open>The two stages of the calendar computation\<close>

lemma ymdhms_to_jd_split:
  "ymdhms_to_jd year month day hour minute second =
     bind_exn (day_number year month day) (\<lambda>N.
     bind_exn (int_to_f64 N) (\<lambda>n.
     bind_exn (day_fraction_line42 hour minute second) (\<lambda>F.
     Inr (f64_add (f64_of (n - 1524.5)) F))))"
  by (simp add: ymdhms_to_jd_def day_number_def day_fraction_line42_def bind_exn_def Let_def
      split: sum.splits prod.splits)

lemma day_number_next:
  "day_number year month (day + 1) = bind_exn (day_number year month day) (\<lambda>N. Inr (N + 1))"
  by (simp add: day_number_def bind_exn_def Let_def split: sum.splits prod.splits)

lemma jd_line41_exact:
  assumes "\<bar>N\<bar> \<le> 2 ^ 51"
  shows "int_to_f64 N = Inr (of_int N)"
    and "f64_of (of_int N - 1524.5) = Fin (of_int N - 1524.5)"
proof -
  define J :: real where "J = of_int N - 1524.5"
  from assms have N53: "\<bar>N\<bar> < 2 ^ 53" by simp
  then show "int_to_f64 N = Inr (of_int N)" by (rule int_to_f64_exact)
  from assms have k: "\<bar>2 * N - 3049\<bar> < 2 ^ 53" by simp
  have eq: "J = of_int (2 * N - 3049) / 2 ^ 1" by (simp add: J_def)
  have r: "f64_round J = J"
    unfolding eq using k by (intro f64_round_exact) simp_all
  from assms have "real_of_int \<bar>N\<bar> \<le> real_of_int (2 ^ 51)" by (simp only: of_int_le_iff)
  then have "\<bar>J\<bar> \<le> 2 ^ 64" by (simp add: J_def)
  then have "\<bar>f64_round J\<bar> \<le> 2 ^ 64" by (simp only: r)
  then have "f64_of J = Fin (f64_round J)" by (rule f64_of_Fin)
  then have "f64_of J = Fin J" by (simp only: r)
  then show "f64_of (of_int N - 1524.5) = Fin (of_int N - 1524.5)"
    by (simp only: J_def)
qed

lemma day_fraction_midnight: "day_fraction_line42 0 0 0 = Inr (Fin 0)"
  by (simp add: day_fraction_line42_def f64_eval)

subsection \<open>The sidereal stage\<close>

lemma max_f64_ge_10_307: "27 * 10 ^ 306 \<le> max_f64"
proof -
  have "(2::real) ^ 971 \<le> 2 ^ 1023" by (rule power_increasing) simp_all
  moreover have "(2::real) ^ 1024 = 2 * 2 ^ 1023" by simp
  ultimately have a: "(2::real) ^ 1023 \<le> max_f64" by (simp add: max_f64_def)
  have "(27::real) * 10 ^ 306 \<le> 2 ^ 1023" by simp
  with a show ?thesis by linarith
qed

lemma py_float_mod_range:
  assumes "0 < y"
  shows "0 \<le> py_float_mod x y" and "py_float_mod x y < y"
proof -
  have lo: "of_int \<lfloor>x / y\<rfloor> \<le> x / y" by (rule of_int_floor_le)
  have hi: "x / y < of_int \<lfloor>x / y\<rfloor> + 1" by linarith
  from lo assms have "of_int \<lfloor>x / y\<rfloor> * y \<le> x"
    by (simp add: le_divide_eq)
  then show "0 \<le> py_float_mod x y"
    by (simp add: py_float_mod_def mult.commute)
  from hi assms have "x < (of_int \<lfloor>x / y\<rfloor> + 1) * y"
    by (simp only: pos_divide_less_eq)
  then show "py_float_mod x y < y"
    by (simp add: py_float_mod_def algebra_simps)
qed

lemma py_float_pow_Inr:
  assumes "\<bar>x ^ n\<bar> \<le> max_f64"
  shows "py_float_pow x n = Inr (x ^ n)"
  using assms by (simp add: py_float_pow_def)

lemma py_float_pow_small:
  assumes "\<bar>x\<bar> \<le> 1"
  shows "py_float_pow x n = Inr (x ^ n)"
proof -
  have "\<bar>x ^ n\<bar> = \<bar>x\<bar> ^ n" by (simp add: power_abs)
  also have "\<dots> \<le> 1" using assms by (simp add: power_le_one)
  also have "\<dots> \<le> 2 ^ 64" by simp
  also note max_f64_ge
  finally have "\<bar>x ^ n\<bar> \<le> max_f64" .
  then show ?thesis by (rule py_float_pow_Inr)
qed

lemma centuries_bound:
  fixes jd :: real
  assumes "\<bar>jd\<bar> \<le> 10 ^ 107"
  shows "\<bar>(jd - 2451545.0) / 36525.0\<bar> \<le> 3 * 10 ^ 102"
proof -
  have "\<bar>jd - 2451545.0\<bar> \<le> \<bar>jd\<bar> + 2451545" by simp
  also have "\<dots> \<le> 10 ^ 107 + 2451545" using assms by simp
  also have "\<dots> \<le> 3 * 10 ^ 102 * 36525" by simp
  finally have "\<bar>jd - 2451545.0\<bar> / 36525 \<le> 3 * 10 ^ 102"
    by (simp add: field_simps)
  then show ?thesis by simp
qed

lemma powers_in_range:
  assumes "\<bar>jd\<bar> \<le> 10 ^ 107"
  shows "py_float_pow ((jd - 2451545.0) / 36525.0) 2 = Inr (((jd - 2451545.0) / 36525.0) ^ 2)"
    and "py_float_pow ((jd - 2451545.0) / 36525.0) 3 = Inr (((jd - 2451545.0) / 36525.0) ^ 3)"
proof -
  define T where "T = (jd - 2451545.0) / 36525.0"
  have T: "\<bar>T\<bar> \<le> 3 * 10 ^ 102"
    unfolding T_def by (rule centuries_bound [OF assms])
  have "\<bar>T ^ 2\<bar> = \<bar>T\<bar> ^ 2" by (simp add: power_abs)
  also have "\<dots> \<le> (3 * 10 ^ 102) ^ 2" using T by (intro power_mono) simp_all
  also have "\<dots> \<le> (27::real) * 10 ^ 306" by simp
  finally have "\<bar>T ^ 2\<bar> \<le> max_f64" using max_f64_ge_10_307 by linarith
  then show "py_float_pow ((jd - 2451545.0) / 36525.0) 2 = Inr (((jd - 2451545.0) / 36525.0) ^ 2)"
    unfolding T_def by (rule py_float_pow_Inr)
  have "\<bar>T ^ 3\<bar> = \<bar>T\<bar> ^ 3" by (simp add: power_abs)
  also have "\<dots> \<le> (3 * 10 ^ 102) ^ 3" using T by (intro power_mono) simp_all
  also have "\<dots> \<le> (27::real) * 10 ^ 306" by simp
  finally have "\<bar>T ^ 3\<bar> \<le> max_f64" using max_f64_ge_10_307 by linarith
  then show "py_float_pow ((jd - 2451545.0) / 36525.0) 3 = Inr (((jd - 2451545.0) / 36525.0) ^ 3)"
    unfolding T_def by (rule py_float_pow_Inr)
qed

lemma jd_to_gmst_line51: "jd_to_gmst jd = gmst_deg_line51 jd"
proof -
  have "\<not> py_float_mod x 360 < 0" for x
    using py_float_mod_range(1) [of 360 x] by simp
  then show ?thesis
    by (simp add: jd_to_gmst_def gmst_deg_line51_def bind_exn_def Let_def split: sum.splits)
qed

lemma gmst_deg_line51_returns:
  assumes "\<bar>jd\<bar> \<le> 10 ^ 107"
  shows "\<exists>g. gmst_deg_line51 jd = Inr g"
  using powers_in_range [OF assms]
  by (simp add: gmst_deg_line51_def bind_exn_def Let_def)

lemma gmst_deg_line51_range:
  assumes "gmst_deg_line51 jd = Inr g"
  shows "0 \<le> g" and "g < 360"
proof -
  from assms obtain x where g: "g = py_float_mod x 360"
    by (auto simp: gmst_deg_line51_def bind_exn_def Let_def split: sum.splits)
  show "0 \<le> g" unfolding g by (rule py_float_mod_range(1)) simp
  show "g < 360" unfolding g by (rule py_float_mod_range(2)) simp
qed

lemma jd_to_gmst_raises:
  assumes "jd_to_gmst jd = Inl e"
  shows "e = OverflowError"
  using assms
  by (auto simp: jd_to_gmst_def py_float_pow_def bind_exn_def Let_def split: sum.splits if_splits)

lemma eci_to_ecef_rotation_eq:
  "eci_to_ecef jd x y z = bind_exn (jd_to_gmst jd) (\<lambda>gmst. Inr (eci_to_ecef_rotation gmst x y z))"
  by (simp add: eci_to_ecef_def eci_to_ecef_rotation_def Let_def)

subsection \<open>Calendar date to Julian Date\<close>

text \<open>The roundings of the evaluation at 2000-01-01 12:00:00.\<close>

lemma f64_round_j2000_1: "f64_round (1999 / 100) = 5626684784446013 / 281474976710656"
  using f64_round_nearest [of 48 "1999 / 100" 5626684784446013] by simp

lemma f64_round_j2000_2: "f64_round (19 / 4) = 19 / 4"
  using f64_round_exact [of 2 19] by simp

lemma f64_round_j2000_3: "f64_round (9810615 / 4) = 9810615 / 4"
  using f64_round_exact [of 2 9810615] by simp

lemma f64_round_j2000_4: "f64_round (60292137043906215 / 140737488355328) = 7536517130488277 / 17592186044416"
  using f64_round_nearest [of 44 "60292137043906215 / 140737488355328" 7536517130488277] by simp

lemma f64_round_j2000_5: "f64_round (4903089 / 2) = 4903089 / 2"
  using f64_round_exact [of 1 4903089] by simp

text \<open>
  C1. For 2000-01-01 12:00:00 \<open>ymdhms_to_jd\<close> returns exactly 2451545.0, the Julian
  Date of the J2000.0 epoch.
\<close>

theorem ymdhms_to_jd_j2000: "ymdhms_to_jd 2000 1 1 12 0 0 = Inr (Fin 2451545.0)"
  by (simp add: ymdhms_to_jd_def f64_eval f64_round_literals
      f64_round_j2000_1 f64_round_j2000_2 f64_round_j2000_3 f64_round_j2000_4 f64_round_j2000_5)

text \<open>The roundings of the evaluations at 1029-09-15 and 1029-09-16, 01:01:01.\<close>

lemma f64_round_d1029_1: "f64_round (1029 / 100) = 1448188755176325 / 140737488355328"
  using f64_round_nearest [of 49 "1029 / 100" 5792755020705300] by simp

lemma f64_round_d1029_2: "f64_round (5 / 2) = 5 / 2"
  using f64_round_exact [of 1 5] by simp

lemma f64_round_d1029_3: "f64_round (8393445 / 4) = 8393445 / 4"
  using f64_round_exact [of 2 8393445] by simp

lemma f64_round_d1029_4: "f64_round (43065812174218725 / 140737488355328) = 5383226521777341 / 17592186044416"
  using f64_round_nearest [of 44 "43065812174218725 / 140737488355328" 5383226521777341] by simp

lemma f64_round_d1029_5: "f64_round (4194303 / 2) = 4194303 / 2"
  using f64_round_exact [of 1 4194303] by simp

lemma f64_round_d1029_6: "f64_round (1 / 60) = 4803839602528529 / 288230376151711744"
  using f64_round_nearest [of 58 "1 / 60" 4803839602528529] by simp

lemma f64_round_d1029_7: "f64_round (293034215754240273 / 288230376151711744) = 1144664905290001 / 1125899906842624"
  using f64_round_nearest [of 52 "293034215754240273 / 288230376151711744" 4578659621160004] by simp

lemma f64_round_d1029_8: "f64_round (1 / 3600) = 5124095576030431 / 18446744073709551616"
  using f64_round_nearest [of 64 "1 / 3600" 5124095576030431] by simp

lemma f64_round_d1029_9: "f64_round (18759313903847406815 / 18446744073709551616) = 286244413816031 / 281474976710656"
  using f64_round_nearest [of 52 "18759313903847406815 / 18446744073709551616" 4579910621056496] by simp

lemma f64_round_d1029_10: "f64_round (286244413816031 / 6755399441055744) = 6106547494741995 / 144115188075855872"
  using f64_round_nearest [of 57 "286244413816031 / 6755399441055744" 6106547494741995] by simp

lemma f64_round_d1029_11: "f64_round (302231388952610750490603 / 144115188075855872) = 9007197289246641 / 4294967296"
  using f64_round_nearest [of 32 "302231388952610750490603 / 144115188075855872" 9007197289246641] by simp

lemma f64_round_d1029_12: "f64_round (4194305 / 2) = 4194305 / 2"
  using f64_round_exact [of 1 4194305] by simp

lemma f64_round_d1029_13: "f64_round (302231533067798826346475 / 144115188075855872) = 4503600792106969 / 2147483648"
  using f64_round_nearest [of 31 "302231533067798826346475 / 144115188075855872" 4503600792106969] by simp

lemmas f64_round_d1029 = f64_round_d1029_1 f64_round_d1029_2 f64_round_d1029_3 f64_round_d1029_4 f64_round_d1029_5 f64_round_d1029_6 f64_round_d1029_7 f64_round_d1029_8 f64_round_d1029_9 f64_round_d1029_10 f64_round_d1029_11 f64_round_d1029_12 f64_round_d1029_13

lemma day_number_1029_09_15: "day_number 1029 9 15 = Inr 2098676"
  by (simp add: day_number_def f64_eval f64_round_literals f64_round_d1029)

lemma ymdhms_to_jd_1029_09_15:
  "ymdhms_to_jd 1029 9 15 1 1 1 = Inr (Fin (2097151 + 2329472945 / 2 ^ 32))"
  by (simp add: ymdhms_to_jd_def f64_eval f64_round_literals f64_round_d1029)

lemma ymdhms_to_jd_1029_09_16:
  "ymdhms_to_jd 1029 9 16 1 1 1 = Inr (Fin (2097152 + 2329472946 / 2 ^ 32))"
  by (simp add: ymdhms_to_jd_def f64_eval f64_round_literals f64_round_d1029)

text \<open>
  C10, as the code has it. Let \<open>N = C + D + day + B\<close> be the integer sum of line 41,
  at most \<open>2 ^ 51\<close> in magnitude. One day more makes it \<open>N + 1\<close>, so the value
  \<open>N - 1524.5\<close> of line 41 advances by exactly 1. The function returns that value
  plus the day fraction of line 42, rounded once to the nearest double (line 43): at
  00:00:00 the two results differ by exactly 1, at other times of day by 1 up to that
  rounding.
\<close>

theorem ymdhms_to_jd_next_day:
  assumes "day_number year month day = Inr N" and "\<bar>N\<bar> < 2 ^ 51"
  shows "day_number year month (day + 1) = Inr (N + 1)
       \<and> ymdhms_to_jd year month day hour minute second
           = bind_exn (day_fraction_line42 hour minute second)
               (\<lambda>F. Inr (f64_add (Fin (of_int N - 1524.5)) F))
       \<and> ymdhms_to_jd year month (day + 1) hour minute second
           = bind_exn (day_fraction_line42 hour minute second)
               (\<lambda>F. Inr (f64_add (Fin (of_int N - 1524.5 + 1)) F))
       \<and> ymdhms_to_jd year month day 0 0 0 = Inr (Fin (of_int N - 1524.5))
       \<and> ymdhms_to_jd year month (day + 1) 0 0 0 = Inr (Fin (of_int N - 1524.5 + 1))"
proof -
  have nxt: "day_number year month (day + 1) = Inr (N + 1)"
    by (simp add: day_number_next assms(1) bind_exn_def)
  from assms(2) have N0: "\<bar>N\<bar> \<le> 2 ^ 51" and N1: "\<bar>N + 1\<bar> \<le> 2 ^ 51" by simp_all
  note a = jd_line41_exact [OF N0]
  note b = jd_line41_exact(1) [OF N1]
  have c: "f64_of (of_int (N + 1) - 1524.5) = Fin (of_int (N + 1) - 1524.5)"
    by (rule jd_line41_exact(2) [OF N1])
  have d: "ymdhms_to_jd year month day hour minute second
           = bind_exn (day_fraction_line42 hour minute second)
               (\<lambda>F. Inr (f64_add (Fin (of_int N - 1524.5)) F))" for hour minute second
    using a by (simp add: ymdhms_to_jd_split assms(1) bind_exn_def split: sum.splits)
  have e: "ymdhms_to_jd year month (day + 1) hour minute second
           = bind_exn (day_fraction_line42 hour minute second)
               (\<lambda>F. Inr (f64_add (Fin (of_int N - 1524.5 + 1)) F))" for hour minute second
    using b c by (simp add: ymdhms_to_jd_split nxt bind_exn_def split: sum.splits)
  have f: "f64_add (Fin (of_int N - 1524.5)) (Fin 0) = Fin (of_int N - 1524.5)"
    using a(2) by simp
  have g: "f64_add (Fin (of_int N - 1524.5 + 1)) (Fin 0) = Fin (of_int N - 1524.5 + 1)"
    using c by simp
  show ?thesis
    using nxt d e f g by (simp add: day_fraction_midnight bind_exn_def)
qed

theorem ymdhms_to_jd_next_day_witness:
  "day_number 1029 9 15 = Inr 2098676 \<and> \<bar>2098676\<bar> < (2::int) ^ 51
   \<and> day_number 1029 9 (15 + 1) = Inr (2098676 + 1)
   \<and> ymdhms_to_jd 1029 9 15 0 0 0 = Inr (Fin (of_int 2098676 - 1524.5))
   \<and> ymdhms_to_jd 1029 9 (15 + 1) 0 0 0 = Inr (Fin (of_int 2098676 - 1524.5 + 1))"
proof -
  have b: "\<bar>2098676\<bar> < (2::int) ^ 51" by simp
  from ymdhms_to_jd_next_day [OF day_number_1029_09_15 b, of 0 0 0]
  show ?thesis using day_number_1029_09_15 b by blast
qed

text \<open>
  The claim as stated asks for a difference of exactly 1 at every time of day. From
  1029-09-15 to 1029-09-16 at 01:01:01 the Julian Date passes \<open>2 ^ 21\<close>, the spacing
  of the doubles grows from \<open>2 ^ (- 32)\<close> to \<open>2 ^ (- 31)\<close>, and the two results differ
  by \<open>1 + 2 ^ (- 32)\<close>.
\<close>

theorem ymdhms_to_jd_next_day_counterexample:
  "ymdhms_to_jd 1029 9 15 1 1 1 = Inr (Fin (2097151 + 2329472945 / 2 ^ 32))
   \<and> ymdhms_to_jd 1029 9 16 1 1 1 = Inr (Fin (2097152 + 2329472946 / 2 ^ 32))
   \<and> (2097152 + 2329472946 / 2 ^ 32 :: real) \<noteq> (2097151 + 2329472945 / 2 ^ 32) + 1"
  using ymdhms_to_jd_1029_09_15 ymdhms_to_jd_1029_09_16 by simp

subsection \<open>Greenwich Mean Sidereal Time\<close>

text \<open>
  C3. Whenever \<open>jd_to_gmst\<close> returns, the angle lies in the half-open interval from 0
  to 360 degrees; and it returns for every Julian Date up to \<open>10 ^ 107\<close> in magnitude
  (beyond about \<open>2 * 10 ^ 107\<close> line 50 raises OverflowError and there is no angle).
\<close>

theorem jd_to_gmst_range:
  "(\<forall>g. jd_to_gmst jd = Inr g \<longrightarrow> 0 \<le> g \<and> g < 360)
   \<and> (\<bar>jd\<bar> \<le> 10 ^ 107 \<longrightarrow> (\<exists>g. jd_to_gmst jd = Inr g))"
  using gmst_deg_line51_range [of jd] gmst_deg_line51_returns [of jd]
  by (simp add: jd_to_gmst_line51)

theorem jd_to_gmst_range_witness:
  "\<bar>2451545\<bar> \<le> (10::real) ^ 107 \<and> (\<exists>g. jd_to_gmst 2451545 = Inr g \<and> 0 \<le> g \<and> g < 360)"
proof -
  have b: "\<bar>2451545\<bar> \<le> (10::real) ^ 107" by simp
  with jd_to_gmst_range [of 2451545] obtain g where "jd_to_gmst 2451545 = Inr g" by blast
  with jd_to_gmst_range [of 2451545] b show ?thesis by blast
qed

text \<open>
  C4. At the Julian Date 2451545.0 \<open>jd_to_gmst\<close> returns 280.460618375 degrees, which is
  within 1e-6 of the reference value 280.46061837.
\<close>

theorem jd_to_gmst_j2000:
  "jd_to_gmst 2451545.0 = Inr 280.460618375 \<and>
   \<bar>280.460618375 - 280.46061837\<bar> \<le> (0.000001::real)"
  by (simp add: jd_to_gmst_line51 gmst_deg_line51_def py_float_pow_small py_float_mod_def
      bind_exn_def Let_def)

text \<open>
  C9. On every run that reaches line 51 the remainder computed there is already
  non-negative: the test of line 52 is false, the branch of line 53 does not run, and
  the function returns the remainder of line 51 as it is (a run that raises on line 50
  raises in both). Line 51 is reached for every Julian Date up to \<open>10 ^ 107\<close> in
  magnitude.
\<close>

theorem jd_to_gmst_branch_dead:
  "(\<forall>g. gmst_deg_line51 jd = Inr g \<longrightarrow> \<not> g < 0)
   \<and> jd_to_gmst jd = gmst_deg_line51 jd
   \<and> (\<bar>jd\<bar> \<le> 10 ^ 107 \<longrightarrow> (\<exists>g. gmst_deg_line51 jd = Inr g))"
  using gmst_deg_line51_range(1) [of jd] gmst_deg_line51_returns [of jd]
  by (auto simp: jd_to_gmst_line51 not_less)

theorem jd_to_gmst_branch_dead_witness:
  "\<bar>2451545\<bar> \<le> (10::real) ^ 107
   \<and> (\<exists>g. gmst_deg_line51 2451545 = Inr g \<and> \<not> g < 0 \<and> jd_to_gmst 2451545 = Inr g)"
proof -
  have b: "\<bar>2451545\<bar> \<le> (10::real) ^ 107" by simp
  with jd_to_gmst_branch_dead [of 2451545] obtain g where g: "gmst_deg_line51 2451545 = Inr g"
    by blast
  with jd_to_gmst_branch_dead [of 2451545] have "\<not> g < 0" and "jd_to_gmst 2451545 = Inr g"
    by simp_all
  with b g show ?thesis by blast
qed

subsection \<open>The rotation\<close>

text \<open>
  C6. Whenever \<open>eci_to_ecef\<close> returns, the third component of the result is the input
  z: the rotation changes the x and y components only. It returns for every Julian Date
  up to \<open>10 ^ 107\<close> in magnitude and every ECI vector.
\<close>

theorem eci_to_ecef_z:
  "(\<forall>ecef_x ecef_y ecef_z. eci_to_ecef jd x y z = Inr (ecef_x, ecef_y, ecef_z) \<longrightarrow> ecef_z = z)
   \<and> (\<bar>jd\<bar> \<le> 10 ^ 107 \<longrightarrow> (\<exists>ecef_x ecef_y. eci_to_ecef jd x y z = Inr (ecef_x, ecef_y, z)))"
proof -
  have "ecef_z = z" if "eci_to_ecef jd x y z = Inr (ecef_x, ecef_y, ecef_z)"
    for ecef_x ecef_y ecef_z
    using that by (auto simp: eci_to_ecef_def bind_exn_def Let_def split: sum.splits)
  moreover have "\<exists>ecef_x ecef_y. eci_to_ecef jd x y z = Inr (ecef_x, ecef_y, z)"
    if "\<bar>jd\<bar> \<le> 10 ^ 107"
  proof -
    from gmst_deg_line51_returns [OF that] obtain g where "jd_to_gmst jd = Inr g"
      by (auto simp: jd_to_gmst_line51)
    then show ?thesis by (simp add: eci_to_ecef_def bind_exn_def Let_def)
  qed
  ultimately show ?thesis by blast
qed

theorem eci_to_ecef_z_witness:
  "\<bar>2451545\<bar> \<le> (10::real) ^ 107
   \<and> (\<exists>ecef_x ecef_y. eci_to_ecef 2451545 7000 0 42 = Inr (ecef_x, ecef_y, 42))"
proof -
  have b: "\<bar>2451545\<bar> \<le> (10::real) ^ 107" by simp
  with eci_to_ecef_z [of 2451545 7000 0 42] show ?thesis by blast
qed

text \<open>
  C7. The rotation step of \<open>eci_to_ecef\<close> at the GMST angle 0 returns every vector
  unchanged.
\<close>

theorem eci_to_ecef_rotation_zero: "eci_to_ecef_rotation 0 x y z = (x, y, z)"
  by (simp add: eci_to_ecef_rotation_def degrees_to_radians_def Let_def)

subsection \<open>The worked example\<close>

text \<open>The roundings of the evaluation at 2023-03-15 12:00:00.\<close>

lemma f64_round_d2023_1: "f64_round (2023 / 100) = 5694238778856571 / 281474976710656"
  using f64_round_nearest [of 48 "2023 / 100" 5694238778856571] by simp

lemma f64_round_d2023_2: "f64_round (9845679 / 4) = 9845679 / 4"
  using f64_round_exact [of 2 9845679] by simp

lemma f64_round_d2023_3: "f64_round (8613162434843745 / 70368744177664) = 8613162434843745 / 70368744177664"
  using f64_round_exact [of 46 8613162434843745] by simp

lemma f64_round_d2023_4: "f64_round (4920037 / 2) = 4920037 / 2"
  using f64_round_exact [of 1 4920037] by simp

lemma gmst_2023_03_15: "jd_to_gmst 2460019.0 = Inr (10315619930108035995801803 / 29236267321875000000000)"
  by (simp add: jd_to_gmst_line51 gmst_deg_line51_def py_float_pow_small py_float_mod_def
      bind_exn_def Let_def power2_eq_square power3_eq_cube)

text \<open>
  C8. For 2023-03-15 12:00:00 \<open>ymdhms_to_jd\<close> returns exactly 2460019.0. From that
  Julian Date \<open>jd_to_gmst\<close> computes the angle
  10315619930108035995801803 / 29236267321875000000000 degrees, which is within 1e-6 of
  352.836421166177; and \<open>eci_to_ecef\<close> maps the ECI vector (7000, 0, 0) to
  (7000 cos \<theta>, -7000 sin \<theta>, 0), where \<theta> is that angle in radians.
\<close>

theorem round_trip_2023_03_15:
  "ymdhms_to_jd 2023 3 15 12 0 0 = Inr (Fin 2460019.0)
   \<and> jd_to_gmst 2460019.0 = Inr (10315619930108035995801803 / 29236267321875000000000)
   \<and> \<bar>10315619930108035995801803 / 29236267321875000000000 - 352.836421166177\<bar> \<le> (0.000001::real)
   \<and> eci_to_ecef 2460019.0 7000 0 0
       = Inr (7000 * cos (10315619930108035995801803 / 29236267321875000000000 * pi / 180),
              - 7000 * sin (10315619930108035995801803 / 29236267321875000000000 * pi / 180),
              0)"
proof -
  have jd: "ymdhms_to_jd 2023 3 15 12 0 0 = Inr (Fin 2460019.0)"
    by (simp add: ymdhms_to_jd_def f64_eval f64_round_literals
        f64_round_d2023_1 f64_round_d2023_2 f64_round_d2023_3 f64_round_d2023_4)
  have tol: "\<bar>10315619930108035995801803 / 29236267321875000000000 - 352.836421166177\<bar> \<le> (0.000001::real)"
    by simp
  have v: "eci_to_ecef 2460019.0 7000 0 0
       = Inr (7000 * cos (10315619930108035995801803 / 29236267321875000000000 * pi / 180),
              - 7000 * sin (10315619930108035995801803 / 29236267321875000000000 * pi / 180),
              0)"
    using gmst_2023_03_15
    by (simp add: eci_to_ecef_def degrees_to_radians_def bind_exn_def Let_def)
  from jd gmst_2023_03_15 tol v show ?thesis by (simp only: simp_thms)
qed

subsection \<open>The argument count\<close>

text \<open>
  C2, as the script has it. Run with any number of arguments other than nine (an
  argument vector of any length but ten, the script's name included), the script prints
  the usage message and nothing else, converts no argument, computes nothing, and ends
  early through \<open>exit()\<close> with no code: the exit status is 0.
\<close>

theorem main_wrong_argument_count:
  assumes "length argv \<noteq> 10"
  shows "main py_int py_float argv = \<lparr>stdout = [Text usage], ending = SystemExit None\<rparr>
         \<and> exit_status (ending (main py_int py_float argv)) = 0"
  using assms by (simp add: main_def)

theorem main_wrong_argument_count_witness:
  "length [''eci_to_ecef.py'', ''2000'', ''1'', ''1'', ''12'', ''0'', ''0'',
           ''7000'', ''0'', ''0'', ''0''] \<noteq> 10
   \<and> main (\<lambda>s. None) (\<lambda>s. None)
        [''eci_to_ecef.py'', ''2000'', ''1'', ''1'', ''12'', ''0'', ''0'',
         ''7000'', ''0'', ''0'', ''0'']
       = \<lparr>stdout = [Text usage], ending = SystemExit None\<rparr>
   \<and> exit_status (ending (main (\<lambda>s. None) (\<lambda>s. None)
        [''eci_to_ecef.py'', ''2000'', ''1'', ''1'', ''12'', ''0'', ''0'',
         ''7000'', ''0'', ''0'', ''0''])) = 0"
  using main_wrong_argument_count
    [of "[''eci_to_ecef.py'', ''2000'', ''1'', ''1'', ''12'', ''0'', ''0'',
          ''7000'', ''0'', ''0'', ''0'']" "\<lambda>s. None" "\<lambda>s. None"]
  by simp

text \<open>
  The claim as the specification states it asks for a non-zero exit status. With eight
  arguments the script ends with status 0.
\<close>

theorem main_exit_status_counterexample:
  "\<not> exit_status (ending (main (\<lambda>s. None) (\<lambda>s. None)
        [''eci_to_ecef.py'', ''2000'', ''1'', ''1'', ''12'', ''0'', ''0'',
         ''7000'', ''0''])) \<noteq> 0"
  by (simp add: main_def)

end
